theory Spec2Isabelle
  imports Complex_Main "HOL-Library.Sublist"
begin

section \<open>CyberCheck: GPS plausibility and student check-in\<close>

text \<open>
  A shallow embedding of \<^verbatim>\<open>src/lib/geolocation.ts\<close> (current revision) and of
  \<^verbatim>\<open>handleCheckin\<close> in \<^verbatim>\<open>src/pages/student/Checkin.tsx\<close> (current revision).

  Conventions.
  \<^item> A coordinate, an accuracy or a threshold is a \<open>real\<close>; the code only compares
    them and takes differences of coordinates. Integer database columns are \<open>int\<close>.
  \<^item> What \<^verbatim>\<open>calculateDistance\<close> returns is a \<open>number\<close>: a real, or \<open>NaN\<close>. Its
    double-precision arithmetic is not embedded; the result is an input of the handler.
  \<^item> An optional or nullable value is an \<open>option\<close>; \<open>None\<close> stands for
    \<^verbatim>\<open>undefined\<close> and \<^verbatim>\<open>null\<close> alike (the code only ever tests them for
    truthiness).
  \<^item> A rejected promise or a thrown exception is a value of \<open>js_error\<close>.
  \<^item> The browser is an explicit state, \<open>platform\<close>, threaded through every function
    that touches \<^verbatim>\<open>navigator\<close>.
\<close>

subsection \<open>Detection thresholds\<close>

record DetectionThresholds =
  accuracyThreshold :: real
  maxAccuracy :: real
  varianceThreshold :: real
  timestampThreshold :: real

text \<open>
  \<^verbatim>\<open>getDetectionThresholds(level)\<close>: a \<^verbatim>\<open>switch\<close> on the level whose
  \<^verbatim>\<open>default\<close> branch calls the function again with \<^verbatim>\<open>'medium'\<close>. At run time
  the level is a string (it is read from a database column and cast), so it is a string here.
\<close>

function getDetectionThresholds :: "string \<Rightarrow> DetectionThresholds" where
  "getDetectionThresholds level =
     (if level = ''minimal'' then
        \<lparr>accuracyThreshold = 1.0, maxAccuracy = 20000,
         varianceThreshold = 0.000001, timestampThreshold = 100\<rparr>
      else if level = ''medium'' then
        \<lparr>accuracyThreshold = 3.0, maxAccuracy = 15000,
         varianceThreshold = 0.00001, timestampThreshold = 200\<rparr>
      else if level = ''maximal'' then
        \<lparr>accuracyThreshold = 5.0, maxAccuracy = 10000,
         varianceThreshold = 0.0001, timestampThreshold = 500\<rparr>
      else getDetectionThresholds ''medium'')"
  by pat_completeness auto
termination
  by (relation "measure (\<lambda>level. if level = ''medium'' then 0 else 1)") auto

declare getDetectionThresholds.simps [simp del]

text \<open>
  The object literal \<^verbatim>\<open>adjustedThresholds\<close> of \<^verbatim>\<open>detectSuspiciousGPS\<close>
  (lines 233-243). \<^verbatim>\<open>teacherRadius && teacherRadius > 200\<close> is falsy when the argument
  is missing and when it is \<open>0\<close>; likewise for \<^verbatim>\<open>pinValiditySeconds\<close>.
\<close>

definition adjustedThresholds ::
  "DetectionThresholds \<Rightarrow> real option \<Rightarrow> real option \<Rightarrow> DetectionThresholds" where
  "adjustedThresholds thresholds teacherRadius pinValiditySeconds =
     thresholds
       \<lparr>varianceThreshold :=
          (if (case teacherRadius of None \<Rightarrow> False | Some r \<Rightarrow> r \<noteq> 0 \<and> r > 200)
           then varianceThreshold thresholds * 10
           else varianceThreshold thresholds),
        timestampThreshold :=
          (if (case pinValiditySeconds of None \<Rightarrow> False | Some s \<Rightarrow> s \<noteq> 0 \<and> s < 60)
           then timestampThreshold thresholds / 2
           else timestampThreshold thresholds)\<rparr>"

subsection \<open>The browser: user agent and location source\<close>

record LocationData =
  latitude :: real
  longitude :: real
  accuracy :: real
  timestamp :: int

datatype js_error = Error string | TypeError string

text \<open>
  What the code does to the location source is recorded as a log: \<open>Requested k\<close> when the
  \<open>k\<close>-th call of \<^verbatim>\<open>getCurrentLocation()\<close> is made (the promise's executor runs at
  once and hands the request to \<^verbatim>\<open>navigator.geolocation\<close>), and \<open>Awaited ks\<close> when the
  caller suspends on the promises \<open>ks\<close> and is resumed with their outcome. The platform
  answers a request through a callback, in a later turn of the event loop: a request that
  has not been awaited has not been seen to complete.
\<close>

datatype event = Requested nat | Awaited "nat list"

text \<open>
  \<open>geolocation p k\<close> is how the \<open>k\<close>-th acquisition ends: with a position, or with the
  \<^verbatim>\<open>Error\<close> that \<^verbatim>\<open>getCurrentLocation\<close> rejects with (its two-tier
  high/low-accuracy retry is inside that outcome and is not modelled further).
\<close>

record platform =
  userAgent :: string
  geolocation :: "nat \<Rightarrow> js_error + LocationData"
  issued :: nat
  log :: "event list"

definition getCurrentLocation :: "platform \<Rightarrow> nat \<times> platform" where
  "getCurrentLocation p =
     (issued p, p\<lparr>issued := Suc (issued p), log := log p @ [Requested (issued p)]\<rparr>)"

definition await :: "nat \<Rightarrow> platform \<Rightarrow> (js_error + LocationData) \<times> platform" where
  "await k p = (geolocation p k, p\<lparr>log := log p @ [Awaited [k]]\<rparr>)"

text \<open>
  \<^verbatim>\<open>await Promise.all([a, b])\<close>: resumes with both values, or with an error as soon as
  one of the two rejects. Which error wins when both reject depends on timing; every caller
  here discards it.
\<close>

definition promiseAll ::
  "nat \<Rightarrow> nat \<Rightarrow> platform \<Rightarrow> (js_error + LocationData \<times> LocationData) \<times> platform" where
  "promiseAll k1 k2 p =
     ((case geolocation p k1 of
         Inl e \<Rightarrow> Inl e
       | Inr a \<Rightarrow> (case geolocation p k2 of Inl e \<Rightarrow> Inl e | Inr b \<Rightarrow> Inr (a, b))),
      p\<lparr>log := log p @ [Awaited [k1, k2]]\<rparr>)"

text \<open>
  \<^verbatim>\<open>String.prototype.toLowerCase\<close> and \<^verbatim>\<open>includes\<close>, on the ASCII strings a
  user agent consists of.
\<close>

definition toLowerChar :: "char \<Rightarrow> char" where
  "toLowerChar c =
     (case map_of (zip ''ABCDEFGHIJKLMNOPQRSTUVWXYZ'' ''abcdefghijklmnopqrstuvwxyz'') c of
        None \<Rightarrow> c
      | Some l \<Rightarrow> l)"

definition toLowerCase :: "string \<Rightarrow> string" where
  "toLowerCase s = map toLowerChar s"

fun includes_str :: "string \<Rightarrow> string \<Rightarrow> bool" where
  "includes_str [] needle = (needle = [])"
| "includes_str (c # cs) needle = (prefix needle (c # cs) \<or> includes_str cs needle)"

subsection \<open>detectSuspiciousGPS\<close>

record verdict =
  isSuspicious :: bool
  reasons :: "string list"

datatype role = student | teacher | admin

text \<open>\<^verbatim>\<open>isSuspicious = true; reasons.push(r)\<close>, the body of every heuristic.\<close>

definition flag :: "string \<Rightarrow> verdict \<Rightarrow> verdict" where
  "flag r v = v\<lparr>isSuspicious := True, reasons := reasons v @ [r]\<rparr>"

text \<open>Lines 246-255: the emulator markers in the user agent.\<close>

definition emulatorCheck :: "platform \<Rightarrow> verdict \<Rightarrow> verdict" where
  "emulatorCheck p v =
     (let ua = toLowerCase (userAgent p) in
      if includes_str ua ''sdk'' \<or> includes_str ua ''emulator'' \<or> includes_str ua ''simulator''
      then flag ''Emulator/Simulator aniqlandi'' v
      else v)"

text \<open>Lines 262-274: the two tests on the first reading's accuracy, one after the other.\<close>

definition accuracyChecks :: "LocationData \<Rightarrow> verdict \<Rightarrow> verdict" where
  "accuracyChecks location v =
     (let v1 = (if accuracy location = 0
                then flag ''Mumkin bo'lmagan GPS aniqligi (0 metr)'' v else v)
      in if accuracy location < 0.1
         then flag ''Mumkin bo'lmagan yuqori aniqlik'' v1 else v1)"

text \<open>Lines 283-291: the two further readings have the same coordinates.\<close>

definition identicalCheck :: "LocationData \<Rightarrow> LocationData \<Rightarrow> verdict \<Rightarrow> verdict" where
  "identicalCheck r0 r1 v =
     (let latDiff = \<bar>latitude r0 - latitude r1\<bar>;
          lonDiff = \<bar>longitude r0 - longitude r1\<bar>
      in if latDiff < 0.0000001 \<and> lonDiff < 0.0000001
         then flag ''GPS ko'rsatkichlari sun'iy ravishda bir xil'' v
         else v)"

text \<open>
  Lines 293-298. \<^verbatim>\<open>reasons\<close> is declared \<^verbatim>\<open>const\<close> (line 221), so after
  \<^verbatim>\<open>isSuspicious = false\<close> has taken effect the assignment \<^verbatim>\<open>reasons = []\<close>
  throws a \<^verbatim>\<open>TypeError\<close>: the binding is never replaced, and control leaves the
  \<^verbatim>\<open>try\<close> block for its \<^verbatim>\<open>catch\<close> clause. The result is the state of the two
  locals when the block is left, and the exception if there is one.
\<close>

definition corroborationGate :: "verdict \<Rightarrow> verdict \<times> js_error option" where
  "corroborationGate v =
     (if length (reasons v) < 2
      then (v\<lparr>isSuspicious := False\<rparr>, Some (TypeError ''Assignment to constant variable.''))
      else (v, None))"

text \<open>The \<^verbatim>\<open>try\<close> block, lines 245-299.\<close>

definition tryBlock :: "platform \<Rightarrow> (verdict \<times> js_error option) \<times> platform" where
  "tryBlock p0 =
     (let v0 = emulatorCheck p0 \<lparr>isSuspicious = False, reasons = []\<rparr>;
          (k, p1) = getCurrentLocation p0;
          (r, p2) = await k p1
      in case r of
           Inl e \<Rightarrow> ((v0, Some e), p2)
         | Inr location \<Rightarrow>
             (let v1 = accuracyChecks location v0;
                  (k1, p3) = getCurrentLocation p2;
                  (k2, p4) = getCurrentLocation p3;
                  (rs, p5) = promiseAll k1 k2 p4
              in case rs of
                   Inl e \<Rightarrow> ((v1, Some e), p5)
                 | Inr (r0, r1) \<Rightarrow> (corroborationGate (identicalCheck r0 r1 v1), p5)))"

text \<open>
  The three heuristics in the order the \<^verbatim>\<open>try\<close> block applies them when all three
  acquisitions succeed: what has been accumulated when the gate of line 294 is reached.
\<close>

definition heuristics ::
  "platform \<Rightarrow> LocationData \<Rightarrow> LocationData \<Rightarrow> LocationData \<Rightarrow> verdict" where
  "heuristics p l0 l1 l2 =
     identicalCheck l1 l2
       (accuracyChecks l0 (emulatorCheck p \<lparr>isSuspicious = False, reasons = []\<rparr>))"

text \<open>
  \<^verbatim>\<open>detectSuspiciousGPS(level = 'medium', teacherRadius?, pinValiditySeconds?, userRole?)\<close>.
  The thresholds are computed as in the source and, as in the source, nothing reads them.
\<close>

definition detectSuspiciousGPS ::
  "string option \<Rightarrow> real option \<Rightarrow> real option \<Rightarrow> role option \<Rightarrow> platform
     \<Rightarrow> verdict \<times> platform" where
  "detectSuspiciousGPS level teacherRadius pinValiditySeconds userRole p =
     (if userRole = Some teacher \<or> userRole = Some admin
      then (\<lparr>isSuspicious = False, reasons = []\<rparr>, p)
      else
        (let thresholds =
               getDetectionThresholds (case level of None \<Rightarrow> ''medium'' | Some l \<Rightarrow> l);
             adjusted = adjustedThresholds thresholds teacherRadius pinValiditySeconds;
             ((v, thrown), p') = tryBlock p
         in case thrown of
              None \<Rightarrow> (v, p')
            | Some error \<Rightarrow> (v\<lparr>reasons := reasons v @ [''GPS tekshiruvida xatolik'']\<rparr>, p')))"

subsection \<open>Numbers that may be NaN\<close>

text \<open>
  \<^verbatim>\<open>calculateDistance\<close> (lines 56-74) evaluates the Haversine formula in IEEE-754
  doubles with \<^verbatim>\<open>Math.sin\<close>, \<^verbatim>\<open>Math.cos\<close>, \<^verbatim>\<open>Math.sqrt\<close> and
  \<^verbatim>\<open>Math.atan2\<close>, and does not keep the argument of the square roots inside
  \<open>[0, 1]\<close>: it returns a double, or \<^verbatim>\<open>NaN\<close>. A double is embedded as the real it
  denotes.
\<close>

datatype number = Finite real | NaN

text \<open>\<^verbatim>\<open>distance <= radiusMeters\<close>: false when the distance is \<^verbatim>\<open>NaN\<close>.\<close>

definition number_le :: "number \<Rightarrow> int \<Rightarrow> bool" where
  "number_le d r = (case d of Finite x \<Rightarrow> x \<le> of_int r | NaN \<Rightarrow> False)"

text \<open>
  \<^verbatim>\<open>Math.round\<close>: the nearest integer, a tie going up; \<^verbatim>\<open>NaN\<close> stays
  \<^verbatim>\<open>NaN\<close>.
\<close>

definition Math_round :: "number \<Rightarrow> number" where
  "Math_round d = (case d of Finite x \<Rightarrow> Finite (of_int \<lfloor>x + 1 / 2\<rfloor>) | NaN \<Rightarrow> NaN)"

subsection \<open>handleCheckin\<close>

record user =
  user_id :: string
  user_role :: role

text \<open>The columns of \<^verbatim>\<open>lessons\<close> that the handler selects and reads.\<close>

record lesson =
  lesson_id :: string
  lesson_latitude :: real
  lesson_longitude :: real
  radius_meters :: "int option"
  fake_detection_level :: "string option"
  allow_skip_gps :: "bool option"
  pin_validity_seconds :: "int option"

datatype status = present | suspicious

text \<open>
  The values the handler passes to the \<^verbatim>\<open>attendance\<close> table (the same for
  \<^verbatim>\<open>update\<close> and \<^verbatim>\<open>insert\<close>), without the check-in time.
\<close>

record attendance =
  att_lesson_id :: string
  att_student_id :: string
  att_status :: status
  att_latitude :: real
  att_longitude :: real
  distance_meters :: number
  is_fake_gps :: bool
  suspicious_reason :: "string option"
  att_fingerprint :: string
  att_user_agent :: string

record checkResult =
  success :: bool
  message :: string
  result_status :: "string option"

text \<open>
  What one call of the handler leaves behind: the attendance values written, if any, and the
  result put on the screen, if any.
\<close>

record checkin =
  written :: "attendance option"
  shown :: "checkResult option"

text \<open>
  What the handler reads besides the browser: the signed-in user, the lesson query
  (\<open>None\<close> when it fails or matches no active lesson with an unexpired PIN),
  \<^verbatim>\<open>Date.now()\<close>, how \<^verbatim>\<open>getFingerprint()\<close> ends (it rejects where
  \<^verbatim>\<open>crypto.subtle\<close> or \<^verbatim>\<open>TextEncoder\<close> is missing), and what
  \<^verbatim>\<open>calculateDistance(lat1, lon1, lat2, lon2)\<close> returns. Nothing is assumed of the
  last: every property of the handler below holds whatever the double arithmetic returns.
\<close>

record session =
  user :: "user option"
  findLesson :: "string \<Rightarrow> lesson option"
  now :: int
  getFingerprint :: "js_error + string"
  calculateDistance :: "real \<Rightarrow> real \<Rightarrow> real \<Rightarrow> real \<Rightarrow> number"

text \<open>\<^verbatim>\<open>isMobileDevice()\<close> of \<^verbatim>\<open>lib/auth\<close>.\<close>

definition isMobileDevice :: "platform \<Rightarrow> bool" where
  "isMobileDevice p =
     (let ua = toLowerCase (userAgent p);
          mobileKeywords = [''android'', ''iphone'', ''ipad'', ''ipod'', ''mobile'', ''webos'']
      in list_ex (\<lambda>keyword. includes_str ua keyword) mobileKeywords)"

text \<open>
  Template-string conversion of an integer (in decimal digits, as JavaScript prints integers
  of magnitude below \<open>10\<^sup>2\<^sup>1\<close>) and of a rounded number, and \<^verbatim>\<open>join\<close>.
\<close>

fun show_nat :: "nat \<Rightarrow> string" where
  "show_nat n =
     (if n < 10 then [''0123456789'' ! n]
      else show_nat (n div 10) @ [''0123456789'' ! (n mod 10)])"

declare show_nat.simps [simp del]

definition show_int :: "int \<Rightarrow> string" where
  "show_int i = (if i < 0 then ''-'' @ show_nat (nat (- i)) else show_nat (nat i))"

definition toString :: "number \<Rightarrow> string" where
  "toString d = (case d of Finite x \<Rightarrow> show_int \<lfloor>x\<rfloor> | NaN \<Rightarrow> ''NaN'')"

fun join :: "string \<Rightarrow> string list \<Rightarrow> string" where
  "join sep [] = []"
| "join sep [x] = x"
| "join sep (x # y # ys) = x @ sep @ join sep (y # ys)"

definition message_of :: "js_error \<Rightarrow> string" where
  "message_of e = (case e of Error m \<Rightarrow> m | TypeError m \<Rightarrow> m)"

text \<open>Lines 104-120: the message shown when the handler's own acquisition fails.\<close>

definition locationErrorMessage :: "js_error \<Rightarrow> string" where
  "locationErrorMessage error =
     (let nl = [CHR 0x0A] in
      message_of error @
      (if includes_str (message_of error) ''ruxsat'' then
         nl @ nl @ ''Chrome/Safari sozlamalarida: '' @ nl @
         ''1. Uch burchak menyuga bosing'' @ nl @
         ''2. 'Joylashuv' ruxsatini 'Ruxsat berilgan' qiling'' @ nl @
         ''3. Sahifani qayta yuklang''
       else if includes_str (message_of error) ''Internet'' then
         nl @ nl @ ''Iltimos, Wi-Fi yoki mobil internet aloqasini tekshiring''
       else []))"

definition refuse :: "string \<Rightarrow> checkin" where
  "refuse m =
     \<lparr>written = None, shown = Some \<lparr>success = False, message = m, result_status = None\<rparr>\<rparr>"

text \<open>Line 79: \<^verbatim>\<open>lesson.radius_meters || 120\<close>.\<close>

definition radiusMeters :: "lesson \<Rightarrow> int" where
  "radiusMeters l = (case radius_meters l of None \<Rightarrow> 120 | Some r \<Rightarrow> if r = 0 then 120 else r)"

text \<open>Line 95: \<^verbatim>\<open>lesson.fake_detection_level || 'medium'\<close>.\<close>

definition detectionLevel :: "lesson \<Rightarrow> string" where
  "detectionLevel l =
     (case fake_detection_level l of
        None \<Rightarrow> ''medium''
      | Some lv \<Rightarrow> if lv = [] then ''medium'' else lv)"

text \<open>
  Lines 123-219: distance, status, the attendance values and the result shown. The outer
  \<^verbatim>\<open>catch\<close> turns a failing \<^verbatim>\<open>getFingerprint()\<close> into a system-error message; the
  Supabase client reports failures in its return value, which the handler does not read.
\<close>

definition conclude ::
  "session \<Rightarrow> user \<Rightarrow> lesson \<Rightarrow> bool \<Rightarrow> LocationData \<Rightarrow> verdict \<Rightarrow> platform \<Rightarrow> checkin" where
  "conclude env u l skipGPS location suspiciousCheck p =
     (let distance =
            (if \<not> skipGPS
             then calculateDistance env (latitude location) (longitude location)
                    (lesson_latitude l) (lesson_longitude l)
             else Finite 0);
          isWithinRadius = (if \<not> skipGPS then number_le distance (radiusMeters l) else True)
      in case getFingerprint env of
           Inl e \<Rightarrow> refuse ''Tizim xatosi yuz berdi''
         | Inr fingerprint \<Rightarrow>
             (let (status, suspiciousReason) =
                    (if \<not> skipGPS \<and> isSuspicious suspiciousCheck then
                       (suspicious, Some (join '', '' (reasons suspiciousCheck)))
                     else if \<not> skipGPS \<and> \<not> isWithinRadius then
                       (suspicious,
                        Some (''Darsdan '' @ toString (Math_round distance) @
                              ''m uzoqda (ruxsat: '' @ show_int (radiusMeters l) @ ''m)''))
                     else if skipGPS then
                       (present, Some ''GPS tekshiruvi o'tkazib yuborildi'')
                     else (present, None))
              in \<lparr>written = Some
                     \<lparr>att_lesson_id = lesson_id l,
                      att_student_id = user_id u,
                      att_status = status,
                      att_latitude = latitude location,
                      att_longitude = longitude location,
                      distance_meters = distance,
                      is_fake_gps = isSuspicious suspiciousCheck,
                      suspicious_reason = suspiciousReason,
                      att_fingerprint = fingerprint,
                      att_user_agent = userAgent p\<rparr>,
                  shown = Some
                     (if status = present then
                        \<lparr>success = True,
                         message = ''Davomat muvaffaqiyatli qayd etildi! ('' @
                                   toString (Math_round distance) @ ''m)'',
                         result_status = Some ''present''\<rparr>
                      else
                        \<lparr>success = False,
                         message =
                           (case suspiciousReason of
                              None \<Rightarrow> ''Shubhali holat aniqlandi''
                            | Some m \<Rightarrow> if m = [] then ''Shubhali holat aniqlandi'' else m),
                         result_status = Some ''suspicious''\<rparr>)\<rparr>))"

text \<open>
  \<^verbatim>\<open>handleCheckin(pinCode, skipGPS = false)\<close>, lines 46-121, then \<open>conclude\<close>.
\<close>

definition handleCheckin ::
  "session \<Rightarrow> string \<Rightarrow> bool \<Rightarrow> platform \<Rightarrow> checkin \<times> platform" where
  "handleCheckin env pinCode skipGPS p =
     (case user env of
        None \<Rightarrow> (\<lparr>written = None, shown = None\<rparr>, p)
      | Some u \<Rightarrow>
          if length pinCode \<noteq> 6 then (\<lparr>written = None, shown = None\<rparr>, p)
          else if \<not> isMobileDevice p then (refuse ''Faqat mobil qurilmadan foydalaning!'', p)
          else
            (case findLesson env pinCode of
               None \<Rightarrow> (refuse ''PIN kod noto'g'ri yoki muddati o'tgan'', p)
             | Some l \<Rightarrow>
                 if skipGPS then
                   (conclude env u l skipGPS
                      \<lparr>latitude = 0, longitude = 0, accuracy = 9999, timestamp = now env\<rparr>
                      \<lparr>isSuspicious = False,
                       reasons = [''GPS tekshiruvi o'tkazib yuborildi'']\<rparr> p,
                    p)
                 else
                   (let (suspiciousCheck, p1) =
                          detectSuspiciousGPS
                            (Some (detectionLevel l))
                            (map_option real_of_int (radius_meters l))
                            (map_option real_of_int (pin_validity_seconds l))
                            (Some (user_role u)) p;
                        (k, p2) = getCurrentLocation p1;
                        (r, p3) = await k p2
                    in case r of
                         Inl error \<Rightarrow> (refuse (locationErrorMessage error), p3)
                       | Inr location \<Rightarrow>
                           (conclude env u l skipGPS location suspiciousCheck p3, p3))))"

subsection \<open>Sequential acquisition, as a property of the log\<close>

text \<open>
  A log is sequential when no acquisition is requested while an earlier one has been
  requested and not yet awaited. \<open>pending\<close> lists the requests still outstanding.
\<close>

fun sequentialFrom :: "nat list \<Rightarrow> event list \<Rightarrow> bool" where
  "sequentialFrom pending [] = True"
| "sequentialFrom pending (Requested k # es) = (pending = [] \<and> sequentialFrom [k] es)"
| "sequentialFrom pending (Awaited ks # es) =
     sequentialFrom (filter (\<lambda>k. k \<notin> set ks) pending) es"

definition sequential :: "event list \<Rightarrow> bool" where
  "sequential es = sequentialFrom [] es"

subsection \<open>Concrete browsers and sessions\<close>

definition feed :: "(js_error + LocationData) list \<Rightarrow> nat \<Rightarrow> js_error + LocationData" where
  "feed outcomes k =
     (if k < length outcomes then outcomes ! k
      else Inl (Error ''Joylashuvni aniqlash vaqti tugadi. Qayta urinib ko'ring.''))"

definition reading :: "real \<Rightarrow> real \<Rightarrow> real \<Rightarrow> LocationData" where
  "reading lat lon acc = \<lparr>latitude = lat, longitude = lon, accuracy = acc, timestamp = 0\<rparr>"

definition phone :: "string \<Rightarrow> (js_error + LocationData) list \<Rightarrow> platform" where
  "phone ua outcomes = \<lparr>userAgent = ua, geolocation = feed outcomes, issued = 0, log = []\<rparr>"

definition chromeAndroid :: string where
  "chromeAndroid = ''Mozilla/5.0 (Linux; Android 13) Chrome/120 Mobile''"

definition emulatorAgent :: string where
  "emulatorAgent = ''Mozilla/5.0 (Linux; Android 13; sdk_gphone64) Chrome/120 Mobile''"

definition unavailable :: js_error where
  "unavailable = Error ''Joylashuvni aniqlab bo'lmadi. Internet aloqasini tekshiring.''"

definition classroom :: "int option \<Rightarrow> bool \<Rightarrow> lesson" where
  "classroom radius skippable =
     \<lparr>lesson_id = ''L1'', lesson_latitude = 41.3, lesson_longitude = 69.2,
      radius_meters = radius, fake_detection_level = Some ''medium'',
      allow_skip_gps = Some skippable, pin_validity_seconds = Some 60\<rparr>"

text \<open>
  What \<^verbatim>\<open>calculateDistance\<close> returns between the points of the check-ins below, to a
  tenth of a millimetre: 0 from a point to itself, and the distances to the classroom from
  0.0027 and 0.00072 degrees south of it. Other pairs are not tabulated.
\<close>

definition measured :: "real \<Rightarrow> real \<Rightarrow> real \<Rightarrow> real \<Rightarrow> number" where
  "measured lat1 lon1 lat2 lon2 =
     (if (lat1, lon1) = (lat2, lon2) then Finite 0
      else if (lat1, lon1, lat2, lon2) = (41.2973, 69.2, 41.3, 69.2) then Finite 300.2263
      else if (lat1, lon1, lat2, lon2) = (41.29928, 69.2, 41.3, 69.2) then Finite 80.0603
      else NaN)"

definition pupil :: "lesson \<Rightarrow> session" where
  "pupil l =
     \<lparr>user = Some \<lparr>user_id = ''S1'', user_role = student\<rparr>,
      findLesson = (\<lambda>pin. if pin = ''123456'' then Some l else None),
      now = 1700000000000,
      getFingerprint = Inr ''ab12'',
      calculateDistance = measured\<rparr>"


text \<open>
  A check-in on the classroom's meridian: three readings for the classifier, the first with
  the given accuracy, and a fourth, at the given latitude, for the handler.
\<close>

definition visit :: "string \<Rightarrow> real \<Rightarrow> real \<Rightarrow> platform" where
  "visit ua acc lat =
     phone ua
       [Inr (reading 41.3 69.2 acc), Inr (reading 41.3001 69.2001 15),
        Inr (reading 41.3002 69.2 9), Inr (reading lat 69.2 10)]"

section \<open>Properties\<close>

lemmas detect_defs = detectSuspiciousGPS_def tryBlock_def emulatorCheck_def accuracyChecks_def
  identicalCheck_def corroborationGate_def flag_def getCurrentLocation_def await_def
  promiseAll_def toLowerCase_def toLowerChar_def

lemmas fixture_defs = phone_def feed_def reading_def chromeAndroid_def emulatorAgent_def
  unavailable_def classroom_def pupil_def visit_def

subsection \<open>Thresholds\<close>

text \<open>
  C6. \<open>getDetectionThresholds\<close> is a function of the level alone and returns the base
  table: minimal gives (1.0, 20000, 1e-6, 100), medium (3.0, 15000, 1e-5, 200), maximal
  (5.0, 10000, 1e-4, 500); every other level gives what medium gives.
\<close>

theorem getDetectionThresholds_table:
  "getDetectionThresholds ''minimal'' =
     \<lparr>accuracyThreshold = 1.0, maxAccuracy = 20000,
      varianceThreshold = 0.000001, timestampThreshold = 100\<rparr>
   \<and> getDetectionThresholds ''medium'' =
     \<lparr>accuracyThreshold = 3.0, maxAccuracy = 15000,
      varianceThreshold = 0.00001, timestampThreshold = 200\<rparr>
   \<and> getDetectionThresholds ''maximal'' =
     \<lparr>accuracyThreshold = 5.0, maxAccuracy = 10000,
      varianceThreshold = 0.0001, timestampThreshold = 500\<rparr>
   \<and> (level \<notin> {''minimal'', ''medium'', ''maximal''} \<longrightarrow>
        getDetectionThresholds level = getDetectionThresholds ''medium'')"
proof -
  have unknown: "getDetectionThresholds level = getDetectionThresholds ''medium''"
    if "level \<notin> {''minimal'', ''medium'', ''maximal''}"
    using that by (subst getDetectionThresholds.simps) simp
  show ?thesis
    using unknown
    by (simp add: getDetectionThresholds.simps [of "''minimal''"]
        getDetectionThresholds.simps [of "''medium''"]
        getDetectionThresholds.simps [of "''maximal''"])
qed

theorem getDetectionThresholds_table_witness:
  "''bogus'' \<notin> {''minimal'', ''medium'', ''maximal''}
   \<and> getDetectionThresholds ''bogus'' =
     \<lparr>accuracyThreshold = 3.0, maxAccuracy = 15000,
      varianceThreshold = 0.00001, timestampThreshold = 200\<rparr>"
  using getDetectionThresholds_table [of "''bogus''"] by simp

text \<open>
  What the adjustment does, field by field: the variance floor is multiplied by 10 exactly
  when a radius above 200 is given; the timestamp floor is halved exactly when a PIN validity
  is given that is below 60 and is not 0; the two accuracy fields are kept.
\<close>

lemma adjustedThresholds_variance:
  "varianceThreshold (adjustedThresholds t r s) =
     (if \<exists>x. r = Some x \<and> x > 200 then varianceThreshold t * 10 else varianceThreshold t)"
  by (cases r) (auto simp: adjustedThresholds_def)

lemma adjustedThresholds_timestamp:
  "timestampThreshold (adjustedThresholds t r s) =
     (if \<exists>x. s = Some x \<and> x \<noteq> 0 \<and> x < 60 then timestampThreshold t / 2
      else timestampThreshold t)"
  by (cases s) (auto simp: adjustedThresholds_def)

lemma adjustedThresholds_accuracy:
  "accuracyThreshold (adjustedThresholds t r s) = accuracyThreshold t"
  "maxAccuracy (adjustedThresholds t r s) = maxAccuracy t"
  by (simp_all add: adjustedThresholds_def)

text \<open>
  C7. The claim has the timestamp floor halved whenever the PIN validity is below 60. At a
  validity of 0 seconds, which is below 60, the code's truthiness test
  \<^verbatim>\<open>pinValiditySeconds && ...\<close> is false and the floor of the medium profile stays 200.
\<close>

theorem adjustedThresholds_zero_validity:
  "(0::real) < 60
   \<and> timestampThreshold (getDetectionThresholds ''medium'') = 200
   \<and> timestampThreshold
       (adjustedThresholds (getDetectionThresholds ''medium'') None (Some 0)) = 200"
  by (simp add: adjustedThresholds_def getDetectionThresholds.simps [of "''medium''"])

subsection \<open>The classifier\<close>

text \<open>
  C5. For the roles teacher and admin, whatever the level, the radius and the PIN validity,
  \<open>detectSuspiciousGPS\<close> returns the verdict not suspicious with no reasons and leaves
  the browser as it found it: no acquisition is requested and none is awaited.
\<close>

theorem detectSuspiciousGPS_exempt:
  "userRole = Some teacher \<or> userRole = Some admin \<Longrightarrow>
   detectSuspiciousGPS level teacherRadius pinValiditySeconds userRole p =
     (\<lparr>isSuspicious = False, reasons = []\<rparr>, p)"
  by (simp add: detectSuspiciousGPS_def)

theorem detectSuspiciousGPS_exempt_witness:
  "detectSuspiciousGPS (Some ''maximal'') (Some 250) (Some 30) (Some teacher)
     (phone emulatorAgent [Inr (reading 41.3 69.2 0)]) =
     (\<lparr>isSuspicious = False, reasons = []\<rparr>, phone emulatorAgent [Inr (reading 41.3 69.2 0)])
   \<and> log (phone emulatorAgent [Inr (reading 41.3 69.2 0)]) = []"
  using detectSuspiciousGPS_exempt [of "Some teacher" "Some ''maximal''" "Some 250" "Some 30"
      "phone emulatorAgent [Inr (reading 41.3 69.2 0)]"]
  by (simp add: phone_def)

text \<open>
  C10. The verdict, and everything else \<open>detectSuspiciousGPS\<close> returns, does not depend
  on the teacher radius or on the PIN validity: two runs that differ only in these two
  arguments return the same.
\<close>

theorem detectSuspiciousGPS_ignores_lesson_settings:
  "detectSuspiciousGPS level teacherRadius pinValiditySeconds userRole p =
   detectSuspiciousGPS level teacherRadius' pinValiditySeconds' userRole p"
  by (simp add: detectSuspiciousGPS_def)

text \<open>
  Every heuristic sets the flag when it adds a reason, so after the three of them the flag
  is set as soon as there is a reason.
\<close>

lemma flagged_emulatorCheck:
  "(reasons v \<noteq> [] \<longrightarrow> isSuspicious v) \<Longrightarrow>
   (reasons (emulatorCheck p v) \<noteq> [] \<longrightarrow> isSuspicious (emulatorCheck p v))"
  by (simp add: emulatorCheck_def flag_def Let_def)

lemma flagged_accuracyChecks:
  "(reasons v \<noteq> [] \<longrightarrow> isSuspicious v) \<Longrightarrow>
   (reasons (accuracyChecks l v) \<noteq> [] \<longrightarrow> isSuspicious (accuracyChecks l v))"
  by (simp add: accuracyChecks_def flag_def Let_def)

lemma flagged_identicalCheck:
  "(reasons v \<noteq> [] \<longrightarrow> isSuspicious v) \<Longrightarrow>
   (reasons (identicalCheck a b v) \<noteq> [] \<longrightarrow> isSuspicious (identicalCheck a b v))"
  by (simp add: identicalCheck_def flag_def Let_def)

lemma heuristics_flagged:
  "reasons (heuristics p l0 l1 l2) \<noteq> [] \<Longrightarrow> isSuspicious (heuristics p l0 l1 l2)"
  unfolding heuristics_def
  using flagged_identicalCheck [OF flagged_accuracyChecks [OF flagged_emulatorCheck]]
  by simp

text \<open>
  The verdict of a run that is not exempt and in which the three acquisitions succeed. With
  two reasons or more it is suspicious, with exactly the accumulated reasons. With fewer it
  is not suspicious, and its reasons are the accumulated ones followed by the error reason:
  the gate's assignment to the constant \<^verbatim>\<open>reasons\<close> throws and the \<^verbatim>\<open>catch\<close> clause
  runs.
\<close>

lemma detectSuspiciousGPS_all_acquired:
  assumes "userRole \<noteq> Some teacher" and "userRole \<noteq> Some admin"
    and "geolocation p (issued p) = Inr l0"
    and "geolocation p (Suc (issued p)) = Inr l1"
    and "geolocation p (Suc (Suc (issued p))) = Inr l2"
  shows "fst (detectSuspiciousGPS level teacherRadius pinValiditySeconds userRole p) =
     (if length (reasons (heuristics p l0 l1 l2)) < 2
      then \<lparr>isSuspicious = False,
            reasons = reasons (heuristics p l0 l1 l2) @ [''GPS tekshiruvida xatolik'']\<rparr>
      else \<lparr>isSuspicious = True, reasons = reasons (heuristics p l0 l1 l2)\<rparr>)"
proof (cases "length (reasons (heuristics p l0 l1 l2)) < 2")
  case True
  then show ?thesis using assms
    by (simp add: detectSuspiciousGPS_def tryBlock_def getCurrentLocation_def await_def
        promiseAll_def corroborationGate_def heuristics_def Let_def)
next
  case False
  then have "reasons (heuristics p l0 l1 l2) \<noteq> []" by auto
  then have "isSuspicious (heuristics p l0 l1 l2)" by (rule heuristics_flagged)
  with False show ?thesis using assms
    by (simp add: detectSuspiciousGPS_def tryBlock_def getCurrentLocation_def await_def
        promiseAll_def corroborationGate_def heuristics_def [symmetric] Let_def)
qed

text \<open>
  C1. The claim has a student run with fewer than two accumulated reasons return not
  suspicious with an empty list of reasons. Two such runs, all acquisitions succeeding: a
  phone on which no heuristic triggers, and one whose first reading has an accuracy of 5 cm
  (one heuristic). Both return not suspicious, and neither returns an empty list.
\<close>

theorem detectSuspiciousGPS_gate_throws:
  "fst (detectSuspiciousGPS (Some ''medium'') None None (Some student)
          (phone chromeAndroid
             [Inr (reading 41.3 69.2 12), Inr (reading 41.3001 69.2001 15),
              Inr (reading 41.3002 69.2 9)]))
     = \<lparr>isSuspicious = False, reasons = [''GPS tekshiruvida xatolik'']\<rparr>
   \<and> fst (detectSuspiciousGPS (Some ''medium'') None None (Some student)
          (phone chromeAndroid
             [Inr (reading 41.3 69.2 0.05), Inr (reading 41.3001 69.2001 15),
              Inr (reading 41.3002 69.2 9)]))
     = \<lparr>isSuspicious = False,
        reasons = [''Mumkin bo'lmagan yuqori aniqlik'', ''GPS tekshiruvida xatolik'']\<rparr>"
  by (simp add: detect_defs fixture_defs)

text \<open>
  The verdict of a run that is not exempt and in which an acquisition fails: the catch
  clause appends the error reason to what the heuristics before the failure accumulated,
  and the flag stays as they left it.
\<close>

lemma detectSuspiciousGPS_first_fails:
  assumes "userRole \<noteq> Some teacher" and "userRole \<noteq> Some admin"
    and "geolocation p (issued p) = Inl e"
    and "flagged = emulatorCheck p \<lparr>isSuspicious = False, reasons = []\<rparr>"
  shows "fst (detectSuspiciousGPS level teacherRadius pinValiditySeconds userRole p) =
     flagged\<lparr>reasons := reasons flagged @ [''GPS tekshiruvida xatolik'']\<rparr>"
  using assms
  by (simp add: detectSuspiciousGPS_def tryBlock_def getCurrentLocation_def await_def Let_def)

lemma detectSuspiciousGPS_batch_fails:
  assumes "userRole \<noteq> Some teacher" and "userRole \<noteq> Some admin"
    and "geolocation p (issued p) = Inr l0"
    and "geolocation p (Suc (issued p)) = Inl e \<or> geolocation p (Suc (Suc (issued p))) = Inl e"
    and "flagged = accuracyChecks l0 (emulatorCheck p \<lparr>isSuspicious = False, reasons = []\<rparr>)"
  shows "fst (detectSuspiciousGPS level teacherRadius pinValiditySeconds userRole p) =
     flagged\<lparr>reasons := reasons flagged @ [''GPS tekshiruvida xatolik'']\<rparr>"
  using assms
  by (auto simp: detectSuspiciousGPS_def tryBlock_def getCurrentLocation_def await_def
      promiseAll_def Let_def split: sum.splits)

text \<open>
  C4. The claim has every student run in which an acquisition fails return not suspicious.
  Two runs with one heuristic hit before the failure: an emulator's user agent with the
  first acquisition failing, and a 5 cm accuracy on the first reading with the second
  acquisition failing. Both return suspicious, with the heuristic's reason and the error
  reason.
\<close>

theorem detectSuspiciousGPS_failure_keeps_flag:
  "fst (detectSuspiciousGPS (Some ''medium'') None None (Some student)
          (phone emulatorAgent [Inl unavailable]))
     = \<lparr>isSuspicious = True,
        reasons = [''Emulator/Simulator aniqlandi'', ''GPS tekshiruvida xatolik'']\<rparr>
   \<and> fst (detectSuspiciousGPS (Some ''medium'') None None (Some student)
          (phone chromeAndroid [Inr (reading 41.3 69.2 0.05), Inl unavailable]))
     = \<lparr>isSuspicious = True,
        reasons = [''Mumkin bo'lmagan yuqori aniqlik'', ''GPS tekshiruvida xatolik'']\<rparr>"
  by (simp add: detect_defs fixture_defs)

text \<open>
  C3, as amended. In a run that is not exempt and whose first acquisition succeeds, the first
  acquisition is requested and awaited before any other is requested; the two further
  acquisitions are then requested one right after the other, with no await between them, and
  awaited together as one \<^verbatim>\<open>Promise.all\<close> batch.
\<close>

theorem detectSuspiciousGPS_acquisition_order:
  assumes "userRole \<noteq> Some teacher" and "userRole \<noteq> Some admin"
    and "geolocation p (issued p) = Inr l0"
  shows "log (snd (detectSuspiciousGPS level teacherRadius pinValiditySeconds userRole p)) =
     log p @ [Requested (issued p), Awaited [issued p],
              Requested (issued p + 1), Requested (issued p + 2),
              Awaited [issued p + 1, issued p + 2]]"
  using assms
  by (simp add: detectSuspiciousGPS_def tryBlock_def getCurrentLocation_def await_def
        promiseAll_def Let_def split: sum.splits prod.splits option.splits)

theorem detectSuspiciousGPS_acquisition_order_witness:
  "log (snd (detectSuspiciousGPS (Some ''medium'') None None (Some student)
               (phone chromeAndroid
                  [Inr (reading 41.3 69.2 12), Inr (reading 41.3001 69.2001 15),
                   Inr (reading 41.3002 69.2 9)])))
   = [Requested 0, Awaited [0], Requested 1, Requested 2, Awaited [1, 2]]"
  using detectSuspiciousGPS_acquisition_order [of "Some student"
      "phone chromeAndroid
         [Inr (reading 41.3 69.2 12), Inr (reading 41.3001 69.2001 15),
          Inr (reading 41.3002 69.2 9)]"
      "reading 41.3 69.2 12" "Some ''medium''" None None]
  by (simp add: phone_def feed_def)

text \<open>
  C3, as claimed, fails: in a student run with three successful acquisitions the log is not
  sequential, the third acquisition being requested while the second is outstanding.
\<close>

theorem detectSuspiciousGPS_not_sequential:
  "\<not> sequential (log (snd (detectSuspiciousGPS (Some ''medium'') None None (Some student)
       (phone chromeAndroid
          [Inr (reading 41.3 69.2 12), Inr (reading 41.3001 69.2001 15),
           Inr (reading 41.3002 69.2 9)]))))"
  by (simp add: detect_defs fixture_defs sequential_def)

subsection \<open>The check-in handler\<close>













text \<open>
  The GPS path: the classifier runs, then the handler requests and awaits its own reading;
  if that is obtained, the rest is \<open>conclude\<close>.
\<close>

lemma handleCheckin_gps_path:
  assumes "user env = Some u" and "length pinCode = 6" and "isMobileDevice p"
    and "findLesson env pinCode = Some l"
    and "detectSuspiciousGPS (Some (detectionLevel l)) (map_option real_of_int (radius_meters l))
           (map_option real_of_int (pin_validity_seconds l)) (Some (user_role u)) p = (check, p1)"
    and "geolocation p1 (issued p1) = Inr location"
  shows "fst (handleCheckin env pinCode False p) =
     conclude env u l False location check
       (p1\<lparr>issued := Suc (issued p1),
           log := log p1 @ [Requested (issued p1), Awaited [issued p1]]\<rparr>)"
  using assms
  by (simp add: handleCheckin_def getCurrentLocation_def await_def)


text \<open>
  What \<open>conclude\<close> writes and shows on the GPS path, for every distance, \<^verbatim>\<open>NaN\<close>
  included, every radius and either end of \<^verbatim>\<open>getFingerprint()\<close>.
\<close>

lemma conclude_gps:
  assumes "d = calculateDistance env (latitude location) (longitude location)
               (lesson_latitude l) (lesson_longitude l)"
  shows "conclude env u l False location check p =
     (case getFingerprint env of
        Inl e \<Rightarrow> refuse ''Tizim xatosi yuz berdi''
      | Inr fp \<Rightarrow>
         \<lparr>written = Some
           \<lparr>att_lesson_id = lesson_id l, att_student_id = user_id u,
            att_status =
              (if isSuspicious check \<or> \<not> number_le d (radiusMeters l) then suspicious
               else present),
            att_latitude = latitude location, att_longitude = longitude location,
            distance_meters = d,
            is_fake_gps = isSuspicious check,
            suspicious_reason =
              (if isSuspicious check then Some (join '', '' (reasons check))
               else if \<not> number_le d (radiusMeters l) then
                 Some (''Darsdan '' @ toString (Math_round d) @
                       ''m uzoqda (ruxsat: '' @ show_int (radiusMeters l) @ ''m)'')
               else None),
            att_fingerprint = fp, att_user_agent = userAgent p\<rparr>,
          shown = Some
           (if isSuspicious check then
              \<lparr>success = False,
               message = (if join '', '' (reasons check) = [] then ''Shubhali holat aniqlandi''
                          else join '', '' (reasons check)),
               result_status = Some ''suspicious''\<rparr>
            else if \<not> number_le d (radiusMeters l) then
              \<lparr>success = False,
               message = ''Darsdan '' @ toString (Math_round d) @
                         ''m uzoqda (ruxsat: '' @ show_int (radiusMeters l) @ ''m)'',
               result_status = Some ''suspicious''\<rparr>
            else
              \<lparr>success = True,
               message = ''Davomat muvaffaqiyatli qayd etildi! ('' @
                         toString (Math_round d) @ ''m)'',
               result_status = Some ''present''\<rparr>)\<rparr>)"
  using assms by (simp add: conclude_def Let_def split: sum.splits)







text \<open>
  Two behaviours that the statement above leaves aside. A distance that is \<^verbatim>\<open>NaN\<close> is
  not within any radius: the status is suspicious and the reason reads \<^verbatim>\<open>NaNm\<close>. A
  lesson radius of 0 is replaced by 120 (\<^verbatim>\<open>lesson.radius_meters || 120\<close>): a student up
  to 120 m away is present.
\<close>

lemma handleCheckin_nan_distance:
  assumes "user env = Some u" and "length pinCode = 6" and "isMobileDevice p"
    and "findLesson env pinCode = Some l"
    and "detectSuspiciousGPS (Some (detectionLevel l)) (map_option real_of_int (radius_meters l))
           (map_option real_of_int (pin_validity_seconds l)) (Some (user_role u)) p = (check, p1)"
    and "\<not> isSuspicious check"
    and "geolocation p1 (issued p1) = Inr location"
    and "calculateDistance env (latitude location) (longitude location)
           (lesson_latitude l) (lesson_longitude l) = NaN"
    and "getFingerprint env = Inr fp"
  shows "map_option att_status (written (fst (handleCheckin env pinCode False p))) = Some suspicious"
    and "map_option suspicious_reason (written (fst (handleCheckin env pinCode False p))) =
      Some (Some (''Darsdan NaNm uzoqda (ruxsat: '' @ show_int (radiusMeters l) @ ''m)''))"
  using handleCheckin_gps_path [OF assms(1-5) assms(7)] conclude_gps [OF assms(8) [symmetric]]
    assms(6,9)
  by (simp_all add: number_le_def Math_round_def toString_def)

lemma handleCheckin_radius_zero:
  assumes "user env = Some u" and "length pinCode = 6" and "isMobileDevice p"
    and "findLesson env pinCode = Some l"
    and "radius_meters l = Some 0"
    and "detectSuspiciousGPS (Some (detectionLevel l)) (map_option real_of_int (radius_meters l))
           (map_option real_of_int (pin_validity_seconds l)) (Some (user_role u)) p = (check, p1)"
    and "\<not> isSuspicious check"
    and "geolocation p1 (issued p1) = Inr location"
    and "calculateDistance env (latitude location) (longitude location)
           (lesson_latitude l) (lesson_longitude l) = Finite d"
    and "0 < d" and "d \<le> 120"
    and "getFingerprint env = Inr fp"
  shows "map_option att_status (written (fst (handleCheckin env pinCode False p))) = Some present"
  using handleCheckin_gps_path [OF assms(1-4) assms(6) assms(8)]
    conclude_gps [OF assms(9) [symmetric]] assms(5,7,10,11,12)
  by (simp add: number_le_def radiusMeters_def)

end
